theory Spec2Isabelle
  imports Main "HOL-Library.Char_ord" "HOL-Library.List_Lexorder" "HOL-Library.Multiset"
begin

section \<open>JavaScript objects with string keys\<close>

text \<open>
  A plain JavaScript object whose keys are not integer-like enumerates its keys in insertion
  order, and assigning to an existing key keeps the key's position. Such objects are
  association lists here: \<open>objGet\<close> is \<open>obj[key]\<close>, \<open>objSet\<close> is \<open>obj[key] = v\<close>.
\<close>

type_synonym 'v obj = "(string \<times> 'v) list"

fun objGet :: "'v obj \<Rightarrow> string \<Rightarrow> 'v option" where
  "objGet [] k = None"
| "objGet ((k', v) # rest) k = (if k' = k then Some v else objGet rest k)"

fun objSet :: "string \<Rightarrow> 'v \<Rightarrow> 'v obj \<Rightarrow> 'v obj" where
  "objSet k v [] = [(k, v)]"
| "objSet k v ((k', v') # rest) = (if k' = k then (k, v) # rest else (k', v') # objSet k v rest)"

definition startsWith :: "string \<Rightarrow> string \<Rightarrow> bool" where
  "startsWith s p = (take (length p) s = p)"

section \<open>The filter AST and its flattening (getFilters)\<close>

datatype operator = OpEq | OpNeq | OpLt | OpLte | OpGt | OpGte | OpAnd | OpOr

text \<open>
  \<open>ASTNode = {operator?, left: ASTNode | string, right: ASTNode | string | string[]}\<close>.
  Where \<open>left\<close> is a string the source reads \<open>right\<close> as \<open>string | string[]\<close> (it casts it
  so in \<open>getFilters\<close> and in \<open>standardizeQueryJSON\<close>), so a node has one of three shapes.
\<close>

datatype rhs = Str string | Arr "string list"

datatype ASTNode =
    KeyNode "operator option" string rhs
  | SubNode "operator option" ASTNode rhs
  | BinNode "operator option" ASTNode ASTNode

text \<open>
  \<open>QueryFilter = {operator, value}\<close>. The values that the walker stores are the strings of
  the tree, and \<open>value.toString()\<close> is the value itself.
\<close>

record QueryFilter =
  qf_operator :: operator
  qf_value :: string

type_synonym QueryFilters = "QueryFilter list obj"

text \<open>
  Modelled from the spec: \<open>CONST.SEARCH.SYNTAX_FILTER_KEYS\<close> is not part of the sources at
  hand; its values are the filter keys the specification enumerates, in that order.
\<close>

definition SYNTAX_FILTER_KEYS :: "string list" where
  "SYNTAX_FILTER_KEYS =
     [''amount'', ''date'', ''category'', ''tag'', ''merchant'', ''description'', ''reportID'',
      ''from'', ''to'', ''in'', ''cardID'', ''taxRate'', ''currency'', ''keyword'',
      ''expenseType'']"

text \<open>The tail of \<open>traverse\<close>: create the key's array when it is missing, then push.\<close>

definition pushFilters :: "string \<Rightarrow> QueryFilter list \<Rightarrow> QueryFilters \<Rightarrow> QueryFilters" where
  "pushFilters nodeKey items filters =
     (let filters1 = (case objGet filters nodeKey of
                        None \<Rightarrow> objSet nodeKey [] filters
                      | Some _ \<Rightarrow> filters);
          filterArray = (case objGet filters1 nodeKey of None \<Rightarrow> [] | Some a \<Rightarrow> a)
      in objSet nodeKey (filterArray @ items) filters1)"

definition rhsFilters :: "operator \<Rightarrow> rhs \<Rightarrow> QueryFilter list" where
  "rhsFilters op r =
     (case r of
        Str v \<Rightarrow> [\<lparr>qf_operator = op, qf_value = v\<rparr>]
      | Arr vs \<Rightarrow> map (\<lambda>element. \<lparr>qf_operator = op, qf_value = element\<rparr>) vs)"

text \<open>
  \<open>traverse\<close> pushes on the captured object \<open>filters\<close>; the object is threaded through.
  A node without operator is left at once; a node whose \<open>left\<close> is a node is not a
  filter key and contributes nothing itself.
\<close>

fun traverse :: "ASTNode \<Rightarrow> QueryFilters \<Rightarrow> QueryFilters" where
  "traverse (KeyNode None nodeKey r) filters = filters"
| "traverse (KeyNode (Some op) nodeKey r) filters =
     (if nodeKey \<notin> set SYNTAX_FILTER_KEYS then filters
      else pushFilters nodeKey (rhsFilters op r) filters)"
| "traverse (SubNode None l r) filters = filters"
| "traverse (SubNode (Some op) l r) filters = traverse l filters"
| "traverse (BinNode None l r) filters = filters"
| "traverse (BinNode (Some op) l r) filters = traverse r (traverse l filters)"

text \<open>\<open>getFilters\<close> reads \<open>queryJSON.filters\<close> only; that field is its argument.\<close>

definition getFilters :: "ASTNode option \<Rightarrow> QueryFilters" where
  "getFilters filters = (case filters of None \<Rightarrow> [] | Some node \<Rightarrow> traverse node [])"

text \<open>
  The reading of \<open>getFilters\<close> in the specification's words: the constraints recorded under
  one key are those of the operator-carrying nodes the traversal reaches (left before
  right) whose \<open>left\<close> is that key: one for a scalar \<open>right\<close>, one per element for an
  array \<open>right\<close>, each with the node's operator.
\<close>

fun constraintsFor :: "string \<Rightarrow> ASTNode \<Rightarrow> QueryFilter list" where
  "constraintsFor k (KeyNode (Some op) nodeKey (Str v)) =
     (if nodeKey = k then [\<lparr>qf_operator = op, qf_value = v\<rparr>] else [])"
| "constraintsFor k (KeyNode (Some op) nodeKey (Arr vs)) =
     (if nodeKey = k then map (\<lambda>v. \<lparr>qf_operator = op, qf_value = v\<rparr>) vs else [])"
| "constraintsFor k (SubNode (Some op) l r) = constraintsFor k l"
| "constraintsFor k (BinNode (Some op) l r) = constraintsFor k l @ constraintsFor k r"
| "constraintsFor k _ = []"

definition entries :: "QueryFilters \<Rightarrow> string \<Rightarrow> QueryFilter list" where
  "entries filters k = (case objGet filters k of None \<Rightarrow> [] | Some a \<Rightarrow> a)"

section \<open>The results payload\<close>

record SearchPersonalDetails =
  pd_accountID :: int
  pd_avatar :: string
  pd_displayName :: "string option"
  pd_login :: "string option"

record SearchTransaction =
  t_transactionID :: string
  t_reportID :: string
  t_reportType :: string
  t_accountID :: int
  t_managerID :: int
  t_created :: "string option"
  t_modifiedCreated :: "string option"
  t_merchant :: "string option"
  t_modifiedMerchant :: "string option"
  t_category :: "string option"
  t_tag :: "string option"
  t_comment :: "string option option"
  t_transactionType :: "string option"
  t_action :: "string option"

record SearchReport =
  r_reportID :: string
  r_type :: string
  r_reportName :: "string option"
  r_total :: "int option"
  r_currency :: "string option"
  r_accountID :: "int option"
  r_managerID :: int
  r_action :: "string option"

record SearchReportAction =
  ra_reportActionID :: string
  ra_accountID :: int
  ra_created :: "string option"
  ra_isDeleted :: bool

text \<open>
  \<open>SearchResults['data']\<close> maps prefixed keys to entity records and holds the
  \<open>personalDetailsList\<close> side table. The source tells the entities apart by the prefix of
  the key and then reads the value at the type the prefix stands for.
\<close>

datatype SearchDataEntry =
    ReportEntry SearchReport
  | TransactionEntry SearchTransaction
  | ReportActionsEntry "SearchReportAction obj"
  | PersonalDetailsList "(int \<times> SearchPersonalDetails) list"

type_synonym SearchData = "SearchDataEntry obj"

text \<open>
  Modelled from the spec: \<open>ONYXKEYS.COLLECTION\<close> is not part of the sources at hand; the
  three entity-type tags are the prefixes the specification names.
\<close>

definition COLLECTION_REPORT :: string where "COLLECTION_REPORT = ''report_''"
definition COLLECTION_TRANSACTION :: string where "COLLECTION_TRANSACTION = ''transaction_''"
definition COLLECTION_REPORT_ACTIONS :: string where "COLLECTION_REPORT_ACTIONS = ''reportActions_''"

definition isReportEntry :: "string \<Rightarrow> bool" where
  "isReportEntry key = startsWith key COLLECTION_REPORT"

definition isTransactionEntry :: "string \<Rightarrow> bool" where
  "isTransactionEntry key = startsWith key COLLECTION_TRANSACTION"

definition isReportActionEntry :: "string \<Rightarrow> bool" where
  "isReportActionEntry key = startsWith key COLLECTION_REPORT_ACTIONS"

text \<open>
  \<open>CONST.TRANSACTION.PARTIAL_TRANSACTION_MERCHANT\<close> and \<open>CONST.TRANSACTION.DEFAULT_MERCHANT\<close>
  are not part of the sources at hand: the two placeholder merchants are parameters.
\<close>

record CONST_TRANSACTION =
  PARTIAL_TRANSACTION_MERCHANT :: string
  DEFAULT_MERCHANT :: string

text \<open>A string is truthy when it is present and not empty.\<close>

fun truthy :: "string option \<Rightarrow> bool" where
  "truthy None = False"
| "truthy (Some s) = (s \<noteq> [])"

text \<open>\<open>item.modifiedMerchant ? item.modifiedMerchant : item.merchant ?? ''\<close>\<close>

definition entryMerchant :: "SearchTransaction \<Rightarrow> string" where
  "entryMerchant item =
     (if truthy (t_modifiedMerchant item) then the (t_modifiedMerchant item)
      else (case t_merchant item of None \<Rightarrow> [] | Some m \<Rightarrow> m))"

definition getShouldShowMerchant :: "CONST_TRANSACTION \<Rightarrow> SearchData \<Rightarrow> bool" where
  "getShouldShowMerchant c data =
     list_ex (\<lambda>(key, entry).
        if isTransactionEntry key then
          (case entry of
             TransactionEntry item \<Rightarrow>
               (let merchant = entryMerchant item
                in merchant \<noteq> [] \<and> merchant \<noteq> PARTIAL_TRANSACTION_MERCHANT c
                   \<and> merchant \<noteq> DEFAULT_MERCHANT c)
           | _ \<Rightarrow> False)
        else False) data"


section \<open>List items and the collaborators of the section builder\<close>

record TransactionListItemType = SearchTransaction +
  li_from :: "SearchPersonalDetails option"
  li_to :: "SearchPersonalDetails option"
  li_formattedFrom :: string
  li_formattedTo :: string
  li_formattedTotal :: int
  li_formattedMerchant :: string
  li_date :: "string option"
  li_shouldShowMerchant :: bool
  li_shouldShowCategory :: "bool option"
  li_shouldShowTag :: "bool option"
  li_shouldShowTax :: "bool option"
  li_keyForList :: string
  li_shouldShowYear :: bool

record ReportListItemType = SearchReport +
  rl_keyForList :: string
  rl_from :: "SearchPersonalDetails option"
  rl_to :: "SearchPersonalDetails option"
  rl_transactions :: "TransactionListItemType list option"

record ReportActionListItemType = SearchReportAction +
  al_from :: "SearchPersonalDetails option"
  al_formattedFrom :: string
  al_date :: "string option"
  al_keyForList :: string

text \<open>\<open>metadata?.columnsToShow?.shouldShow...Column\<close>, each absent or a flag.\<close>

record SearchMetadata =
  md_shouldShowCategoryColumn :: "bool option"
  md_shouldShowTagColumn :: "bool option"
  md_shouldShowTaxColumn :: "bool option"

text \<open>
  The functions and constants of other modules that the section builder calls
  (\<open>TransactionUtils\<close>, \<open>DateUtils\<close>, \<open>CurrencyUtils\<close>, \<open>translateLocal\<close>, \<open>CONST\<close>) are
  not part of the sources at hand; they are parameters, collected in one record.
\<close>

record Collaborators =
  TRANSACTION :: CONST_TRANSACTION
  REPORT_TYPE_EXPENSE :: string
  REPORT_TYPE_IOU :: string
  ACTION_TYPES_VIEW :: string
  ACTION_TYPES_PAID :: string
  CURRENCY_USD :: string
  OWNER_ACCOUNT_ID_FAKE :: int
  getAmount :: "SearchTransaction \<Rightarrow> bool \<Rightarrow> int"
  getMerchant :: "SearchTransaction \<Rightarrow> string"
  getCreated :: "SearchTransaction \<Rightarrow> string"
  doesDateBelongToAPastYear :: "string option \<Rightarrow> bool"
  convertToDisplayString :: "int \<Rightarrow> string \<Rightarrow> string"
  translateHidden :: string
  translatePayerOwesAmount :: "string \<Rightarrow> string \<Rightarrow> string"
  translatePayerPaidAmount :: "string \<Rightarrow> string \<Rightarrow> string"

definition emptyPersonalDetails :: "Collaborators \<Rightarrow> SearchPersonalDetails" where
  "emptyPersonalDetails c =
     \<lparr>pd_accountID = OWNER_ACCOUNT_ID_FAKE c, pd_avatar = [], pd_displayName = None,
      pd_login = None\<rparr>"

text \<open>\<open>data.personalDetailsList?.[accountID]\<close>\<close>

definition personalDetailsOf :: "SearchData \<Rightarrow> int \<Rightarrow> SearchPersonalDetails option" where
  "personalDetailsOf data accountID =
     (case objGet data ''personalDetailsList'' of
        Some (PersonalDetailsList pl) \<Rightarrow> map_of pl accountID
      | _ \<Rightarrow> None)"

text \<open>\<open>managerID ? data.personalDetailsList?.[managerID] : emptyPersonalDetails\<close>\<close>

definition managerDetails :: "Collaborators \<Rightarrow> SearchData \<Rightarrow> int \<Rightarrow> SearchPersonalDetails option" where
  "managerDetails c data managerID =
     (if managerID \<noteq> 0 then personalDetailsOf data managerID else Some (emptyPersonalDetails c))"

text \<open>\<open>p?.displayName ?? p?.login ?? dflt\<close>\<close>

definition displayNameOr :: "SearchPersonalDetails option \<Rightarrow> string \<Rightarrow> string" where
  "displayNameOr p dflt =
     (case p of
        None \<Rightarrow> dflt
      | Some d \<Rightarrow> (case pd_displayName d of
                     Some n \<Rightarrow> n
                   | None \<Rightarrow> (case pd_login d of Some l \<Rightarrow> l | None \<Rightarrow> dflt)))"

text \<open>
  \<open>shouldShowYear\<close> on a results payload (the branch that is not an array): the first
  transaction or report action of a past year decides.
\<close>

definition shouldShowYear :: "Collaborators \<Rightarrow> SearchData \<Rightarrow> bool" where
  "shouldShowYear c data =
     list_ex (\<lambda>(key, entry).
        if isTransactionEntry key then
          (case entry of
             TransactionEntry item \<Rightarrow> doesDateBelongToAPastYear c (Some (getCreated c item))
           | _ \<Rightarrow> False)
        else if isReportActionEntry key then
          (case entry of
             ReportActionsEntry actions \<Rightarrow>
               list_ex (\<lambda>(k, action). doesDateBelongToAPastYear c (ra_created action)) actions
           | _ \<Rightarrow> False)
        else False) data"

text \<open>
  The list item of one transaction: the object literal that \<open>getTransactionsSections\<close>
  and \<open>getReportSections\<close> both build around
  \<open>getTransactionItemCommonFormattedProperties\<close>.
\<close>

definition formattedMerchantOf :: "Collaborators \<Rightarrow> SearchTransaction \<Rightarrow> string" where
  "formattedMerchantOf c transactionItem =
     (let merchant = getMerchant c transactionItem
      in if merchant = PARTIAL_TRANSACTION_MERCHANT (TRANSACTION c)
            \<or> merchant = DEFAULT_MERCHANT (TRANSACTION c) then [] else merchant)"

definition transactionListItem ::
  "Collaborators \<Rightarrow> SearchData \<Rightarrow> SearchMetadata \<Rightarrow> bool \<Rightarrow> bool \<Rightarrow> SearchTransaction
   \<Rightarrow> TransactionListItemType" where
  "transactionListItem c data metadata shouldShowMerchant doesDataContainAPastYearTransaction
     transactionItem =
     (let from = personalDetailsOf data (t_accountID transactionItem);
          to = managerDetails c data (t_managerID transactionItem);
          isExpenseReport = (t_reportType transactionItem = REPORT_TYPE_EXPENSE c)
      in SearchTransaction.extend transactionItem
           \<lparr>li_from = from,
            li_to = to,
            li_formattedFrom = displayNameOr from [],
            li_formattedTo = displayNameOr to [],
            li_formattedTotal = getAmount c transactionItem isExpenseReport,
            li_formattedMerchant = formattedMerchantOf c transactionItem,
            li_date = (if truthy (t_modifiedCreated transactionItem)
                       then t_modifiedCreated transactionItem else t_created transactionItem),
            li_shouldShowMerchant = shouldShowMerchant,
            li_shouldShowCategory = md_shouldShowCategoryColumn metadata,
            li_shouldShowTag = md_shouldShowTagColumn metadata,
            li_shouldShowTax = md_shouldShowTaxColumn metadata,
            li_keyForList = t_transactionID transactionItem,
            li_shouldShowYear = doesDataContainAPastYearTransaction\<rparr>)"

definition getTransactionsSections ::
  "Collaborators \<Rightarrow> SearchData \<Rightarrow> SearchMetadata \<Rightarrow> TransactionListItemType list" where
  "getTransactionsSections c data metadata =
     (let shouldShowMerchant = getShouldShowMerchant (TRANSACTION c) data;
          doesDataContainAPastYearTransaction = shouldShowYear c data
      in concat (map (\<lambda>(key, entry).
           if isTransactionEntry key then
             (case entry of
                TransactionEntry transactionItem \<Rightarrow>
                  [transactionListItem c data metadata shouldShowMerchant
                     doesDataContainAPastYearTransaction transactionItem]
              | _ \<Rightarrow> [])
           else []) data))"

definition getIOUReportName :: "Collaborators \<Rightarrow> SearchData \<Rightarrow> SearchReport \<Rightarrow> string option" where
  "getIOUReportName c data reportItem =
     (let payerName = displayNameOr (managerDetails c data (r_managerID reportItem))
                        (translateHidden c);
          formattedAmount = convertToDisplayString c
             (case r_total reportItem of None \<Rightarrow> 0 | Some t \<Rightarrow> t)
             (case r_currency reportItem of None \<Rightarrow> CURRENCY_USD c | Some cur \<Rightarrow> cur)
      in if r_action reportItem = Some (ACTION_TYPES_VIEW c)
         then Some (translatePayerOwesAmount c payerName formattedAmount)
         else if r_action reportItem = Some (ACTION_TYPES_PAID c)
         then Some (translatePayerPaidAmount c payerName formattedAmount)
         else r_reportName reportItem)"

text \<open>
  One turn of the loop of \<open>getReportSections\<close> over the keys of the payload, on the object
  \<open>reportIDToTransactions\<close>. A report record creates or rewrites its group and keeps the
  transactions the group already has; a transaction record is pushed on the group of its
  report when that group exists, and nothing is done when it does not.
\<close>

definition reportSectionsStep ::
  "Collaborators \<Rightarrow> SearchData \<Rightarrow> SearchMetadata \<Rightarrow> bool \<Rightarrow> bool
   \<Rightarrow> ReportListItemType obj \<Rightarrow> string \<times> SearchDataEntry \<Rightarrow> ReportListItemType obj" where
  "reportSectionsStep c data metadata shouldShowMerchant doesDataContainAPastYearTransaction
     reportIDToTransactions ke =
     (case ke of (key, entry) \<Rightarrow>
      if isReportEntry key then
        (case entry of
           ReportEntry reportItem \<Rightarrow>
             (let reportKey = COLLECTION_REPORT @ r_reportID reportItem;
                  transactions = (case objGet reportIDToTransactions reportKey of
                                    None \<Rightarrow> []
                                  | Some g \<Rightarrow> (case rl_transactions g of None \<Rightarrow> [] | Some ts \<Rightarrow> ts));
                  isIOUReport = (r_type reportItem = REPORT_TYPE_IOU c)
              in objSet reportKey
                   (SearchReport.extend
                      (reportItem\<lparr>r_reportName :=
                         (if isIOUReport then getIOUReportName c data reportItem
                          else r_reportName reportItem)\<rparr>)
                      \<lparr>rl_keyForList = r_reportID reportItem,
                       rl_from = personalDetailsOf data
                                   (case r_accountID reportItem of None \<Rightarrow> - 1 | Some a \<Rightarrow> a),
                       rl_to = managerDetails c data (r_managerID reportItem),
                       rl_transactions = Some transactions\<rparr>)
                   reportIDToTransactions)
         | _ \<Rightarrow> reportIDToTransactions)
      else if isTransactionEntry key then
        (case entry of
           TransactionEntry transactionItem \<Rightarrow>
             (let reportKey = COLLECTION_REPORT @ t_reportID transactionItem;
                  transaction = transactionListItem c data metadata shouldShowMerchant
                                  doesDataContainAPastYearTransaction transactionItem
              in case objGet reportIDToTransactions reportKey of
                   None \<Rightarrow> reportIDToTransactions
                 | Some g \<Rightarrow>
                     (case rl_transactions g of
                        Some ts \<Rightarrow>
                          objSet reportKey (g\<lparr>rl_transactions := Some (ts @ [transaction])\<rparr>)
                            reportIDToTransactions
                      | None \<Rightarrow>
                          objSet reportKey (g\<lparr>rl_transactions := Some [transaction]\<rparr>)
                            reportIDToTransactions))
         | _ \<Rightarrow> reportIDToTransactions)
      else reportIDToTransactions)"

definition getReportSections ::
  "Collaborators \<Rightarrow> SearchData \<Rightarrow> SearchMetadata \<Rightarrow> ReportListItemType list" where
  "getReportSections c data metadata =
     (let shouldShowMerchant = getShouldShowMerchant (TRANSACTION c) data;
          doesDataContainAPastYearTransaction = shouldShowYear c data
      in map snd (foldl (reportSectionsStep c data metadata shouldShowMerchant
                           doesDataContainAPastYearTransaction) [] data))"


section \<open>Sorting\<close>

text \<open>
  \<open>Array.prototype.sort\<close> belongs to the language runtime; the model follows the engine's
  sort step by step. The engine takes the run at the start of the array: it compares the
  second element with the first and, while the run goes on, every element with the one
  before it; a run is descending when the comparator answers below 0 for
  \<open>(later, earlier)\<close> and lasts as long as it does so, and ascending otherwise, as long
  as the answer is not below 0. A descending run is reversed. Every element behind the run
  is then put into the sorted part at the place a binary search finds, which goes left
  when the comparator answers below 0 for \<open>(pivot, middle)\<close> and right otherwise.
  This is the whole of the engine's work on an array of fewer than 64 elements; a longer
  array is cut into pieces sorted in this way, which are then merged, with the same result
  whenever the comparator is a consistent ordering.
\<close>

fun runLength :: "('a \<Rightarrow> 'a \<Rightarrow> int) \<Rightarrow> bool \<Rightarrow> 'a \<Rightarrow> 'a list \<Rightarrow> nat" where
  "runLength cmp isDescending previousElement [] = 0"
| "runLength cmp isDescending previousElement (currentElement # rest) =
     (if (if isDescending then cmp currentElement previousElement \<ge> 0
          else cmp currentElement previousElement < 0)
      then 0
      else Suc (runLength cmp isDescending currentElement rest))"

definition countAndMakeRun :: "('a \<Rightarrow> 'a \<Rightarrow> int) \<Rightarrow> 'a list \<Rightarrow> 'a list \<times> nat" where
  "countAndMakeRun cmp a =
     (case a of
        first # second # rest \<Rightarrow>
          (let isDescending = (cmp second first < 0);
               n = 2 + runLength cmp isDescending second rest
           in (if isDescending then rev (take n a) @ drop n a else a, n))
      | _ \<Rightarrow> (a, length a))"

function binarySearch :: "('a \<Rightarrow> 'a \<Rightarrow> int) \<Rightarrow> 'a \<Rightarrow> 'a list \<Rightarrow> nat \<Rightarrow> nat \<Rightarrow> nat" where
  "binarySearch cmp pivot a left right =
     (if left < right then
        (if cmp pivot (a ! (left + (right - left) div 2)) < 0
         then binarySearch cmp pivot a left (left + (right - left) div 2)
         else binarySearch cmp pivot a (left + (right - left) div 2 + 1) right)
      else left)"
  by pat_completeness auto
termination
  by (relation "measure (\<lambda>(cmp, pivot, a, left, right). right - left)") auto

declare binarySearch.simps [simp del]

definition binaryInsert :: "('a \<Rightarrow> 'a \<Rightarrow> int) \<Rightarrow> 'a list \<Rightarrow> 'a \<Rightarrow> 'a list" where
  "binaryInsert cmp sortedPart pivot =
     (let left = binarySearch cmp pivot sortedPart 0 (length sortedPart)
      in take left sortedPart @ pivot # drop left sortedPart)"

definition js_sort :: "('a \<Rightarrow> 'a \<Rightarrow> int) \<Rightarrow> 'a list \<Rightarrow> 'a list" where
  "js_sort cmp a =
     (if length a < 2 then a
      else (case countAndMakeRun cmp a of
              (a1, n) \<Rightarrow> foldl (binaryInsert cmp) (take n a1) (drop n a1)))"

text \<open>
  Arrays are objects: a caller and a callee that hold the same array see each other's
  writes. The store maps a reference to the contents of its array. \<open>arr.sort(cmp)\<close> sorts
  the array in place and returns the reference it was called on.
\<close>

type_synonym ref = nat
type_synonym 'a arrays = "ref \<Rightarrow> 'a list"

definition array_sort :: "('a \<Rightarrow> 'a \<Rightarrow> int) \<Rightarrow> 'a arrays \<Rightarrow> ref \<Rightarrow> 'a arrays \<times> ref" where
  "array_sort cmp h data = (h(data := js_sort cmp (h data)), data)"

text \<open>
  \<open>String.prototype.localeCompare\<close> is the runtime's collation and a parameter \<open>lc\<close> of the
  comparators. \<open>codeUnitCompare\<close> is the comparison by code units, with which the collation
  agrees on the fixed-width date strings of digits and separators.
  \<open>toLowerCase\<close> is given on the ASCII letters.
\<close>

type_synonym localeCompare = "string \<Rightarrow> string \<Rightarrow> int"

definition codeUnitCompare :: localeCompare where
  "codeUnitCompare a b = (if a < b then - 1 else if a = b then 0 else 1)"

definition toLowerCase :: "string \<Rightarrow> string" where
  "toLowerCase s =
     map (\<lambda>ch. if CHR ''A'' \<le> ch \<and> ch \<le> CHR ''Z'' then char_of (of_char ch + (32::nat)) else ch) s"

datatype SearchColumnType =
    ColumnTo | ColumnFrom | ColumnDate | ColumnTag | ColumnMerchant | ColumnTotalAmount
  | ColumnCategory | ColumnType | ColumnAction | ColumnDescription | ColumnTaxAmount
  | ColumnReceipt

datatype SortingProperty =
    formattedTo | formattedFrom | date | tag | formattedMerchant | formattedTotal
  | category | transactionType | action | comment

datatype SortOrder = ASC | DESC

fun columnNamesToSortingProperty :: "SearchColumnType \<Rightarrow> SortingProperty option" where
  "columnNamesToSortingProperty ColumnTo = Some formattedTo"
| "columnNamesToSortingProperty ColumnFrom = Some formattedFrom"
| "columnNamesToSortingProperty ColumnDate = Some date"
| "columnNamesToSortingProperty ColumnTag = Some tag"
| "columnNamesToSortingProperty ColumnMerchant = Some formattedMerchant"
| "columnNamesToSortingProperty ColumnTotalAmount = Some formattedTotal"
| "columnNamesToSortingProperty ColumnCategory = Some category"
| "columnNamesToSortingProperty ColumnType = Some transactionType"
| "columnNamesToSortingProperty ColumnAction = Some action"
| "columnNamesToSortingProperty ColumnDescription = Some comment"
| "columnNamesToSortingProperty ColumnTaxAmount = None"
| "columnNamesToSortingProperty ColumnReceipt = None"

text \<open>What a sorting property reads from a row: undefined, a string, or a number.\<close>

datatype SortValue = Undefined | StringValue string | NumberValue int

fun optString :: "string option \<Rightarrow> SortValue" where
  "optString None = Undefined"
| "optString (Some s) = StringValue s"

text \<open>
  \<open>sortingProperty === 'comment' ? a.comment?.comment : a[sortingProperty]\<close>
\<close>

fun sortingValue :: "SortingProperty \<Rightarrow> TransactionListItemType \<Rightarrow> SortValue" where
  "sortingValue formattedTo a = StringValue (li_formattedTo a)"
| "sortingValue formattedFrom a = StringValue (li_formattedFrom a)"
| "sortingValue date a = optString (li_date a)"
| "sortingValue tag a = optString (t_tag a)"
| "sortingValue formattedMerchant a = StringValue (li_formattedMerchant a)"
| "sortingValue formattedTotal a = NumberValue (li_formattedTotal a)"
| "sortingValue category a = optString (t_category a)"
| "sortingValue transactionType a = optString (t_transactionType a)"
| "sortingValue action a = optString (t_action a)"
| "sortingValue comment a = (case t_comment a of None \<Rightarrow> Undefined | Some cm \<Rightarrow> optString cm)"

text \<open>
  The comparator of \<open>getSortedTransactionData\<close>. One property has one type in every row,
  so a string never meets a number; that case has no ordering (\<open>NaN\<close>, read as \<open>0\<close>).
\<close>

fun compareValues :: "localeCompare \<Rightarrow> SortOrder \<Rightarrow> SortValue \<Rightarrow> SortValue \<Rightarrow> int" where
  "compareValues lc sortOrder Undefined bValue = 0"
| "compareValues lc sortOrder aValue Undefined = 0"
| "compareValues lc sortOrder (StringValue aValue) (StringValue bValue) =
     (if sortOrder = ASC then lc (toLowerCase aValue) bValue else lc (toLowerCase bValue) aValue)"
| "compareValues lc sortOrder (NumberValue aNum) (NumberValue bNum) =
     (if sortOrder = ASC then aNum - bNum else bNum - aNum)"
| "compareValues lc sortOrder aValue bValue = 0"

definition compareTransactions ::
  "localeCompare \<Rightarrow> SortingProperty \<Rightarrow> SortOrder \<Rightarrow> TransactionListItemType
   \<Rightarrow> TransactionListItemType \<Rightarrow> int" where
  "compareTransactions lc sortingProperty sortOrder a b =
     compareValues lc sortOrder (sortingValue sortingProperty a) (sortingValue sortingProperty b)"

definition getSortedTransactionData ::
  "localeCompare \<Rightarrow> TransactionListItemType arrays \<Rightarrow> ref \<Rightarrow> SearchColumnType option
   \<Rightarrow> SortOrder option \<Rightarrow> TransactionListItemType arrays \<times> ref" where
  "getSortedTransactionData lc h data sortBy sortOrder =
     (case sortBy of
        None \<Rightarrow> (h, data)
      | Some column \<Rightarrow>
          (case sortOrder of
             None \<Rightarrow> (h, data)
           | Some ord \<Rightarrow>
               (case columnNamesToSortingProperty column of
                  None \<Rightarrow> (h, data)
                | Some sortingProperty \<Rightarrow>
                    array_sort (compareTransactions lc sortingProperty ord) h data)))"

text \<open>
  \<open>getReportNewestTransactionDate\<close>. In
  \<open>curr.modifiedCreated ?? curr.created > (max?.created ?? '') ? curr : max\<close>
  the comparison binds tighter than \<open>??\<close>, and \<open>??\<close> tighter than the conditional: the
  condition is \<open>curr.modifiedCreated\<close> when that is present (true when it is not empty),
  and the comparison of the \<open>created\<close> fields only when it is absent. An undefined
  \<open>created\<close> is greater than nothing.
\<close>

definition newerThan :: "TransactionListItemType \<Rightarrow> TransactionListItemType \<Rightarrow> bool" where
  "newerThan current newest =
     (case t_modifiedCreated current of
        Some m \<Rightarrow> m \<noteq> []
      | None \<Rightarrow> (case t_created current of
                   None \<Rightarrow> False
                 | Some cr \<Rightarrow> cr > (case t_created newest of None \<Rightarrow> [] | Some mc \<Rightarrow> mc)))"

definition getReportNewestTransactionDate :: "ReportListItemType \<Rightarrow> string option" where
  "getReportNewestTransactionDate report =
     (case rl_transactions report of
        None \<Rightarrow> None
      | Some [] \<Rightarrow> None
      | Some (first # rest) \<Rightarrow>
          t_created (foldl (\<lambda>newest current. if newerThan current newest then current else newest)
                       first (first # rest)))"

definition compareReports :: "localeCompare \<Rightarrow> ReportListItemType \<Rightarrow> ReportListItemType \<Rightarrow> int" where
  "compareReports lc a b =
     (let aNewestTransaction = getReportNewestTransactionDate a;
          bNewestTransaction = getReportNewestTransactionDate b
      in if \<not> truthy aNewestTransaction \<or> \<not> truthy bNewestTransaction then 0
         else lc (toLowerCase (the bNewestTransaction)) (the aNewestTransaction))"

definition getSortedReportData ::
  "localeCompare \<Rightarrow> ReportListItemType arrays \<Rightarrow> ref \<Rightarrow> ReportListItemType arrays \<times> ref" where
  "getSortedReportData lc h data = array_sort (compareReports lc) h data"

definition compareReportActions ::
  "localeCompare \<Rightarrow> ReportActionListItemType \<Rightarrow> ReportActionListItemType \<Rightarrow> int" where
  "compareReportActions lc a b =
     (case ra_created a of
        None \<Rightarrow> 0
      | Some aValue \<Rightarrow> (case ra_created b of
                         None \<Rightarrow> 0
                       | Some bValue \<Rightarrow> lc (toLowerCase bValue) aValue))"

definition getSortedReportActionData ::
  "localeCompare \<Rightarrow> ReportActionListItemType arrays \<Rightarrow> ref
   \<Rightarrow> ReportActionListItemType arrays \<times> ref" where
  "getSortedReportActionData lc h data = array_sort (compareReportActions lc) h data"


section \<open>Queries: canonical string, hash, parsing\<close>

record SearchQueryJSON =
  q_type :: string
  q_status :: string
  q_sortBy :: string
  q_sortOrder :: string
  q_policyID :: "string option"
  q_filters :: "ASTNode option"
  q_flatFilters :: QueryFilters
  q_inputQuery :: string
  q_hash :: nat

text \<open>The character class \<open>[A-Za-z0-9_@./#&+\-\\';,"]\<close> of \<open>sanitizeString\<close>.\<close>

definition isPlainChar :: "char \<Rightarrow> bool" where
  "isPlainChar ch =
     ((CHR ''A'' \<le> ch \<and> ch \<le> CHR ''Z'') \<or> (CHR ''a'' \<le> ch \<and> ch \<le> CHR ''z'')
      \<or> (CHR ''0'' \<le> ch \<and> ch \<le> CHR ''9'')
      \<or> ch \<in> set [CHR ''_'', CHR ''@'', CHR ''.'', CHR ''/'', CHR ''#'', CHR ''&'', CHR ''+'',
                     CHR ''-'', CHR 0x5C, CHR 0x27, CHR '';'', CHR '','', CHR 0x22])"

definition sanitizeString :: "string \<Rightarrow> string" where
  "sanitizeString str =
     (if list_ex (\<lambda>ch. \<not> isPlainChar ch) str then [CHR 0x22] @ str @ [CHR 0x22] else str)"

fun operatorToSignMap :: "operator \<Rightarrow> string" where
  "operatorToSignMap OpEq = '':''"
| "operatorToSignMap OpLt = ''<''"
| "operatorToSignMap OpLte = ''<=''"
| "operatorToSignMap OpGt = ''>''"
| "operatorToSignMap OpGte = ''>=''"
| "operatorToSignMap OpNeq = ''!=''"
| "operatorToSignMap OpAnd = '',''"
| "operatorToSignMap OpOr = '' ''"

text \<open>
  \<open>buildFilterString\<close>: the loop over \<open>queryFilters\<close>, with the operator of the element
  before the current one (none at index 0).

  Modelled from the spec: the values of \<open>CONST.SEARCH.SYNTAX_FILTER_KEYS\<close> and
  \<open>CONST.SEARCH.SYNTAX_ROOT_KEYS\<close> are not part of the sources at hand; where the source
  names one of them (\<open>KEYWORD\<close>, \<open>FROM\<close>, \<open>TO\<close>, \<open>TAX_RATE\<close>, \<open>CARD_ID\<close>, \<open>POLICY_ID\<close>,
  \<open>TYPE\<close>, \<open>STATUS\<close>, \<open>SORT_BY\<close>, \<open>SORT_ORDER\<close>) the model writes the key as the
  specification spells it.
\<close>

fun filterStringFrom :: "string \<Rightarrow> operator option \<Rightarrow> QueryFilter list \<Rightarrow> string" where
  "filterStringFrom filterName prev [] = []"
| "filterStringFrom filterName prev (queryFilter # rest) =
     (let delimiter = (if filterName = ''keyword'' then '' '' else '','');
          part =
            (if prev \<noteq> None
                \<and> ((qf_operator queryFilter = OpEq \<and> prev = Some OpEq)
                     \<or> (qf_operator queryFilter = OpNeq \<and> prev = Some OpNeq))
             then delimiter @ sanitizeString (qf_value queryFilter)
             else if filterName = ''keyword''
             then delimiter @ sanitizeString (qf_value queryFilter)
             else '' '' @ filterName @ operatorToSignMap (qf_operator queryFilter)
                    @ sanitizeString (qf_value queryFilter))
      in part @ filterStringFrom filterName (Some (qf_operator queryFilter)) rest)"

definition buildFilterString :: "string \<Rightarrow> QueryFilter list \<Rightarrow> string" where
  "buildFilterString filterName queryFilters = filterStringFrom filterName None queryFilters"

text \<open>
  The comparator that \<open>getQueryHash\<close> sorts the values of one key with: \<open>1\<close> when the first
  value is greater, \<open>-1\<close> otherwise, also for equal values.
\<close>

definition compareFilterValues :: "QueryFilter \<Rightarrow> QueryFilter \<Rightarrow> int" where
  "compareFilterValues queryFilter1 queryFilter2 =
     (if qf_value queryFilter1 > qf_value queryFilter2 then 1 else - 1)"

text \<open>
  \<open>getQueryHash\<close> sorts the array of every key of \<open>query.flatFilters\<close> in place while it
  builds the canonical string; \<open>sortFlatFilters\<close> is the object after that, the keys where
  they were. \<open>Object.keys(...).sort()\<close> orders the keys by code units.
\<close>

definition sortFlatFilters :: "QueryFilters \<Rightarrow> QueryFilters" where
  "sortFlatFilters flatFilters = map (\<lambda>(key, filterValues). (key, js_sort compareFilterValues filterValues)) flatFilters"

definition orderedQuery :: "SearchQueryJSON \<Rightarrow> string" where
  "orderedQuery query =
     (if truthy (q_policyID query) then ''policyID:'' @ the (q_policyID query) @ '' '' else [])
     @ ''type:'' @ q_type query
     @ '' status:'' @ q_status query
     @ '' sortBy:'' @ q_sortBy query
     @ '' sortOrder:'' @ q_sortOrder query
     @ concat (map (\<lambda>key. '' '' @ buildFilterString key
                      (case objGet (q_flatFilters query) key of
                         None \<Rightarrow> []
                       | Some filterValues \<Rightarrow> js_sort compareFilterValues filterValues))
                 (sort (map fst (q_flatFilters query))))"

text \<open>
  \<open>UserUtils.hashText\<close> is not part of the sources at hand: it is the parameter \<open>hashText\<close>,
  called with the canonical string and the range \<open>2 ** 32\<close>. The result is the hash and the
  query as the call leaves it.
\<close>

type_synonym hashText = "string \<Rightarrow> nat \<Rightarrow> nat"

definition getQueryHash :: "hashText \<Rightarrow> SearchQueryJSON \<Rightarrow> nat \<times> SearchQueryJSON" where
  "getQueryHash hashText query =
     (hashText (orderedQuery query) (2 ^ 32),
      query\<lparr>q_flatFilters := sortFlatFilters (q_flatFilters query)\<rparr>)"

text \<open>
  \<open>searchParser.parse\<close> is not part of the sources at hand: it is the parameter \<open>parse\<close>,
  which returns the parsed query (\<open>Inr\<close>) or throws (\<open>Inl\<close>, with what it throws).
  A computation that can throw has a result \<open>string + 'a\<close>.
\<close>

type_synonym parser = "string \<Rightarrow> string + SearchQueryJSON"

text \<open>The statements inside \<open>try\<close>.\<close>

definition buildSearchQueryJSON_try :: "parser \<Rightarrow> hashText \<Rightarrow> string \<Rightarrow> string + SearchQueryJSON" where
  "buildSearchQueryJSON_try parse hashText query =
     (case parse query of
        Inl e \<Rightarrow> Inl e
      | Inr result \<Rightarrow>
          (let flatFilters = getFilters (q_filters result);
               result1 = result\<lparr>q_inputQuery := query, q_flatFilters := flatFilters\<rparr>;
               (h, result2) = getQueryHash hashText result1
           in Inr (result2\<lparr>q_hash := h\<rparr>)))"

text \<open>
  \<open>buildSearchQueryJSON\<close>: \<open>catch\<close> writes one line to the console and the function then
  ends without a value. The console is a list of lines, threaded through.
\<close>

definition buildSearchQueryJSON ::
  "parser \<Rightarrow> hashText \<Rightarrow> string list \<Rightarrow> string
   \<Rightarrow> (string + SearchQueryJSON option) \<times> string list" where
  "buildSearchQueryJSON parse hashText console query =
     (case buildSearchQueryJSON_try parse hashText query of
        Inr result \<Rightarrow> (Inr (Some result), console)
      | Inl e \<Rightarrow>
          (Inr None,
           console @ [''Error when parsing SearchQuery: '' @ [CHR 0x22] @ query @ [CHR 0x22]
                        @ '' '' @ e]))"

section \<open>Standardizing a query\<close>

text \<open>
  \<open>PersonalDetailsUtils.getPersonalDetailByEmail(email)?.accountID.toString()\<close> is the
  parameter \<open>accountIDByEmail\<close>. The card list is the list of its cards (bank and card id,
  the id as its decimal string), the tax rates an object from names to lists of ids.
  \<open>taxRates[name]\<close> is read as a lookup among the object's own keys: a filter value that
  is the name of a property every object inherits (\<open>constructor\<close>, \<open>toString\<close>, ...) finds
  that property in the source and is outside this reading.
\<close>

type_synonym CardList = "(string \<times> string) list"

definition cardIDsOfBank :: "CardList \<Rightarrow> string \<Rightarrow> string list" where
  "cardIDsOfBank cardList bank = map snd (filter (\<lambda>card. fst card = bank) cardList)"

definition findIDFromDisplayValue ::
  "(string \<Rightarrow> string option) \<Rightarrow> string \<Rightarrow> rhs \<Rightarrow> CardList \<Rightarrow> string list obj \<Rightarrow> rhs" where
  "findIDFromDisplayValue accountIDByEmail filterName filterValue cardList taxRates =
     (let byEmail = (\<lambda>email. case accountIDByEmail email of Some i \<Rightarrow> i | None \<Rightarrow> email);
          byName = (\<lambda>name. case objGet taxRates name of Some ids \<Rightarrow> ids | None \<Rightarrow> [name])
      in if filterName = ''from'' \<or> filterName = ''to'' then
           (case filterValue of
              Str email \<Rightarrow> Str (byEmail email)
            | Arr emails \<Rightarrow> Arr (map byEmail emails))
         else if filterName = ''taxRate'' then
           (case filterValue of
              Str name \<Rightarrow> Arr (byName name)
            | Arr names \<Rightarrow> Arr (concat (map byName names)))
         else if filterName = ''cardID'' then
           (case filterValue of
              Str bank \<Rightarrow>
                (let ids = cardIDsOfBank cardList bank in if length ids > 0 then Arr ids else Str bank)
            | Arr banks \<Rightarrow> Arr (concat (map (cardIDsOfBank cardList) banks)))
         else filterValue)"

text \<open>
  The \<open>traverse\<close> of \<open>standardizeQueryJSON\<close> assigns to \<open>node.right\<close>; the tree is returned
  with the assignments made.
\<close>

fun standardizeNode ::
  "(string \<Rightarrow> string option) \<Rightarrow> CardList \<Rightarrow> string list obj \<Rightarrow> ASTNode \<Rightarrow> ASTNode" where
  "standardizeNode a cardList taxRates (KeyNode None l r) = KeyNode None l r"
| "standardizeNode a cardList taxRates (KeyNode (Some op) l r) =
     KeyNode (Some op) l (findIDFromDisplayValue a l r cardList taxRates)"
| "standardizeNode a cardList taxRates (SubNode None l r) = SubNode None l r"
| "standardizeNode a cardList taxRates (SubNode (Some op) l r) =
     SubNode (Some op) (standardizeNode a cardList taxRates l) r"
| "standardizeNode a cardList taxRates (BinNode None l r) = BinNode None l r"
| "standardizeNode a cardList taxRates (BinNode (Some op) l r) =
     BinNode (Some op) (standardizeNode a cardList taxRates l)
       (standardizeNode a cardList taxRates r)"

text \<open>
  Query objects live in a store; a reference is an index into it, and an object owns its
  tree of nodes (the parser builds a tree, and a deep clone shares nothing with its
  original). \<open>cloneDeep\<close> allocates a copy at a new reference. The writes of
  \<open>standardizeQueryJSON\<close> go through the reference \<open>standardQuery\<close>.
\<close>

type_synonym queryStore = "SearchQueryJSON list"

definition cloneDeep :: "queryStore \<Rightarrow> ref \<Rightarrow> queryStore \<times> ref" where
  "cloneDeep h r = (h @ [h ! r], length h)"

definition standardizeQueryJSON ::
  "(string \<Rightarrow> string option) \<Rightarrow> queryStore \<Rightarrow> ref \<Rightarrow> CardList \<Rightarrow> string list obj
   \<Rightarrow> queryStore \<times> ref" where
  "standardizeQueryJSON a h queryJSON cardList taxRates =
     (let (h1, standardQuery) = cloneDeep h queryJSON;
          h2 = (case q_filters (h1 ! standardQuery) of
                  None \<Rightarrow> h1
                | Some filters \<Rightarrow>
                    h1[standardQuery := (h1 ! standardQuery)
                         \<lparr>q_filters := Some (standardizeNode a cardList taxRates filters)\<rparr>]);
          h3 = h2[standardQuery := (h2 ! standardQuery)
                    \<lparr>q_flatFilters := getFilters (q_filters (h2 ! standardQuery))\<rparr>]
      in (h3, standardQuery))"


text \<open>
  The invariant of the loop of \<open>getReportSections\<close> for the merchant flag: every
  transaction of every group carries the flag computed before the loop.
\<close>

definition groupsCarry :: "bool \<Rightarrow> ReportListItemType obj \<Rightarrow> bool" where
  "groupsCarry flag groups =
     list_all (\<lambda>(k, g). case rl_transactions g of
                           None \<Rightarrow> True
                         | Some ts \<Rightarrow> list_all (\<lambda>t. li_shouldShowMerchant t = flag) ts) groups"


section \<open>Example inputs\<close>

text \<open>Rows, reports and queries for the worked examples; the fields not named are empty.\<close>

definition exampleTransaction ::
  "string \<Rightarrow> string \<Rightarrow> string option \<Rightarrow> string option \<Rightarrow> string option \<Rightarrow> SearchTransaction" where
  "exampleTransaction transactionID reportID created modifiedCreated merchant =
     \<lparr>t_transactionID = transactionID, t_reportID = reportID, t_reportType = ''expense'',
      t_accountID = 1, t_managerID = 0, t_created = created,
      t_modifiedCreated = modifiedCreated, t_merchant = merchant, t_modifiedMerchant = None,
      t_category = None, t_tag = None, t_comment = None, t_transactionType = None,
      t_action = None\<rparr>"

definition exampleRow :: "SearchTransaction \<Rightarrow> int \<Rightarrow> TransactionListItemType" where
  "exampleRow transactionItem amount =
     SearchTransaction.extend transactionItem
       \<lparr>li_from = None, li_to = None, li_formattedFrom = [], li_formattedTo = [],
        li_formattedTotal = amount, li_formattedMerchant = [],
        li_date = (if truthy (t_modifiedCreated transactionItem)
                   then t_modifiedCreated transactionItem else t_created transactionItem),
        li_shouldShowMerchant = False, li_shouldShowCategory = None, li_shouldShowTag = None,
        li_shouldShowTax = None, li_keyForList = t_transactionID transactionItem,
        li_shouldShowYear = False\<rparr>"

definition exampleReport :: "string \<Rightarrow> SearchReport" where
  "exampleReport reportID =
     \<lparr>r_reportID = reportID, r_type = ''expense'', r_reportName = None, r_total = None,
      r_currency = None, r_accountID = None, r_managerID = 0, r_action = None\<rparr>"

definition exampleReportItem :: "string \<Rightarrow> TransactionListItemType list \<Rightarrow> ReportListItemType" where
  "exampleReportItem reportID transactions =
     SearchReport.extend (exampleReport reportID)
       \<lparr>rl_keyForList = reportID, rl_from = None, rl_to = None,
        rl_transactions = Some transactions\<rparr>"

definition exampleQuery :: "ASTNode option \<Rightarrow> QueryFilters \<Rightarrow> SearchQueryJSON" where
  "exampleQuery filters flatFilters =
     \<lparr>q_type = ''expense'', q_status = ''all'', q_sortBy = ''date'', q_sortOrder = ''desc'',
      q_policyID = None, q_filters = filters, q_flatFilters = flatFilters, q_inputQuery = [],
      q_hash = 0\<rparr>"


text \<open>
  Three rows with the totals 500, -200 and 0; the second has no tag. A store that holds
  them at reference 0 and empty arrays elsewhere.
\<close>

definition exampleRows :: "TransactionListItemType list" where
  "exampleRows =
     [(exampleRow (exampleTransaction ''a'' ''R'' None None None) 500)\<lparr>t_tag := Some ''b''\<rparr>,
      exampleRow (exampleTransaction ''b'' ''R'' None None None) (- 200),
      (exampleRow (exampleTransaction ''c'' ''R'' None None None) 0)\<lparr>t_tag := Some ''a''\<rparr>]"

definition exampleArrays :: "TransactionListItemType arrays" where
  "exampleArrays = (\<lambda>r. if r = 0 then exampleRows else [])"

text \<open>The query \<open>from:alice@example.com taxRate:VAT\<close>, parsed and flattened.\<close>

definition exampleStoredQuery :: SearchQueryJSON where
  "exampleStoredQuery =
     exampleQuery
       (Some (BinNode (Some OpAnd)
          (KeyNode (Some OpEq) ''from'' (Str ''alice@example.com''))
          (KeyNode (Some OpEq) ''taxRate'' (Arr [''VAT'']))))
       [(''from'', [\<lparr>qf_operator = OpEq, qf_value = ''alice@example.com''\<rparr>]),
        (''taxRate'', [\<lparr>qf_operator = OpEq, qf_value = ''VAT''\<rparr>])]"

definition exampleAccounts :: "string \<Rightarrow> string option" where
  "exampleAccounts email = (if email = ''alice@example.com'' then Some ''42'' else None)"


text \<open>
  Collaborators for the worked examples, with two placeholder merchants, and a payload of
  two transactions of the report \<open>R1\<close> with the given merchants, under the keys that the
  transaction prefix gives them.
\<close>

definition exampleCollaborators :: Collaborators where
  "exampleCollaborators =
     \<lparr>TRANSACTION = \<lparr>PARTIAL_TRANSACTION_MERCHANT = ''(none)'', DEFAULT_MERCHANT = ''Expense''\<rparr>,
      REPORT_TYPE_EXPENSE = ''expense'', REPORT_TYPE_IOU = ''iou'', ACTION_TYPES_VIEW = ''view'',
      ACTION_TYPES_PAID = ''paid'', CURRENCY_USD = ''USD'', OWNER_ACCOUNT_ID_FAKE = 0,
      getAmount = (\<lambda>transactionItem isExpenseReport. 0),
      getMerchant = entryMerchant,
      getCreated = (\<lambda>transactionItem. []),
      doesDateBelongToAPastYear = (\<lambda>created. False),
      convertToDisplayString = (\<lambda>amount currency. currency),
      translateHidden = ''Hidden'',
      translatePayerOwesAmount = (\<lambda>payer amount. payer @ '' owes '' @ amount),
      translatePayerPaidAmount = (\<lambda>payer amount. payer @ '' paid '' @ amount)\<rparr>"

definition exampleMetadata :: SearchMetadata where
  "exampleMetadata =
     \<lparr>md_shouldShowCategoryColumn = None, md_shouldShowTagColumn = None,
      md_shouldShowTaxColumn = None\<rparr>"

definition examplePayload :: "string \<Rightarrow> string \<Rightarrow> SearchData" where
  "examplePayload merchant1 merchant2 =
     [(COLLECTION_TRANSACTION @ ''1'',
         TransactionEntry (exampleTransaction ''1'' ''R1'' None None (Some merchant1))),
      (COLLECTION_TRANSACTION @ ''2'',
         TransactionEntry (exampleTransaction ''2'' ''R1'' None None (Some merchant2)))]"




section \<open>Theorems\<close>

lemma objGet_objSet: "objGet (objSet k v m) k' = (if k' = k then Some v else objGet m k')"
  by (induction m) auto

lemma objGet_pushFilters:
  "objGet (pushFilters k items fs) k' =
     (if k' = k then Some ((case objGet fs k of None \<Rightarrow> [] | Some a \<Rightarrow> a) @ items)
      else objGet fs k')"
  by (simp add: pushFilters_def Let_def objGet_objSet split: option.splits)


lemma entries_pushFilters:
  "entries (pushFilters k items fs) k' = (if k' = k then entries fs k @ items else entries fs k')"
  by (simp add: entries_def objGet_pushFilters split: option.splits)

lemma entries_traverse:
  "k \<in> set SYNTAX_FILTER_KEYS \<Longrightarrow>
   entries (traverse t fs) k = entries fs k @ constraintsFor k t"
proof (induction t fs rule: traverse.induct)
  case (2 op nodeKey r filters)
  then show ?case
    by (cases r) (auto simp: entries_pushFilters rhsFilters_def)
qed simp_all

text \<open>
  C6. Under a recognised filter key, \<open>getFilters\<close> returns exactly the constraints of the
  reached nodes whose \<open>left\<close> is that key; a node with an array \<open>right\<close> gives one
  constraint per element, with the node's operator and the element as value
  (\<open>constraintsFor\<close>), and a node with that key and an array \<open>right\<close>, flattened with what
  was collected before it, appends exactly those.
\<close>

theorem getFilters_constraints:
  assumes "k \<in> set SYNTAX_FILTER_KEYS"
  shows "entries (getFilters (Some t)) k = constraintsFor k t
       \<and> entries (traverse (KeyNode (Some op) k (Arr vs)) fs) k
           = entries fs k @ map (\<lambda>v. \<lparr>qf_operator = op, qf_value = v\<rparr>) vs"
proof -
  have "entries [] k = []"
    by (simp add: entries_def)
  then show ?thesis
    using assms
    by (simp add: getFilters_def entries_traverse entries_pushFilters rhsFilters_def)
qed

theorem getFilters_constraints_witness:
  "''category'' \<in> set SYNTAX_FILTER_KEYS
   \<and> entries (getFilters (Some (BinNode (Some OpAnd)
         (KeyNode (Some OpEq) ''category'' (Arr [''A'', ''B'']))
         (KeyNode (Some OpGt) ''amount'' (Str ''100''))))) ''category''
       = [\<lparr>qf_operator = OpEq, qf_value = ''A''\<rparr>, \<lparr>qf_operator = OpEq, qf_value = ''B''\<rparr>]"
proof -
  have h: "''category'' \<in> set SYNTAX_FILTER_KEYS"
    by (simp add: SYNTAX_FILTER_KEYS_def)
  show ?thesis
    using h getFilters_constraints [OF h, of "BinNode (Some OpAnd)
         (KeyNode (Some OpEq) ''category'' (Arr [''A'', ''B'']))
         (KeyNode (Some OpGt) ''amount'' (Str ''100''))" OpEq "[]" "[]"]
    by simp
qed

lemma getShouldShowMerchant_char:
  "getShouldShowMerchant c data \<longleftrightarrow>
     (\<exists>key item. (key, TransactionEntry item) \<in> set data \<and> isTransactionEntry key
        \<and> (let merchant = (case t_modifiedMerchant item of
                              Some m \<Rightarrow> (if m \<noteq> [] then m
                                         else (case t_merchant item of None \<Rightarrow> [] | Some m' \<Rightarrow> m'))
                            | None \<Rightarrow> (case t_merchant item of None \<Rightarrow> [] | Some m' \<Rightarrow> m'))
            in merchant \<noteq> [] \<and> merchant \<noteq> PARTIAL_TRANSACTION_MERCHANT c
               \<and> merchant \<noteq> DEFAULT_MERCHANT c))"
proof -
  have m: "entryMerchant item =
      (case t_modifiedMerchant item of
         Some m \<Rightarrow> (if m \<noteq> [] then m
                    else (case t_merchant item of None \<Rightarrow> [] | Some m' \<Rightarrow> m'))
       | None \<Rightarrow> (case t_merchant item of None \<Rightarrow> [] | Some m' \<Rightarrow> m'))" for item
    by (simp add: entryMerchant_def split: option.splits)
  show ?thesis
    unfolding getShouldShowMerchant_def list_ex_iff m [symmetric]
  proof
    assume "\<exists>(key, entry)\<in>set data.
       if isTransactionEntry key
       then case entry of
              TransactionEntry item \<Rightarrow>
                (let merchant = entryMerchant item
                 in merchant \<noteq> [] \<and> merchant \<noteq> PARTIAL_TRANSACTION_MERCHANT c
                    \<and> merchant \<noteq> DEFAULT_MERCHANT c)
            | _ \<Rightarrow> False
       else False"
    then obtain key entry where ke: "(key, entry) \<in> set data"
      and b: "if isTransactionEntry key
       then case entry of
              TransactionEntry item \<Rightarrow>
                (let merchant = entryMerchant item
                 in merchant \<noteq> [] \<and> merchant \<noteq> PARTIAL_TRANSACTION_MERCHANT c
                    \<and> merchant \<noteq> DEFAULT_MERCHANT c)
            | _ \<Rightarrow> False
       else False"
      by blast
    from b have k: "isTransactionEntry key"
      by (simp split: if_splits)
    with b obtain item where "entry = TransactionEntry item"
      by (cases entry) simp_all
    with ke k b show "\<exists>key item. (key, TransactionEntry item) \<in> set data
        \<and> isTransactionEntry key
        \<and> (let merchant = entryMerchant item
            in merchant \<noteq> [] \<and> merchant \<noteq> PARTIAL_TRANSACTION_MERCHANT c
               \<and> merchant \<noteq> DEFAULT_MERCHANT c)"
      by auto
  next
    assume "\<exists>key item. (key, TransactionEntry item) \<in> set data
        \<and> isTransactionEntry key
        \<and> (let merchant = entryMerchant item
            in merchant \<noteq> [] \<and> merchant \<noteq> PARTIAL_TRANSACTION_MERCHANT c
               \<and> merchant \<noteq> DEFAULT_MERCHANT c)"
    then show "\<exists>(key, entry)\<in>set data.
       if isTransactionEntry key
       then case entry of
              TransactionEntry item \<Rightarrow>
                (let merchant = entryMerchant item
                 in merchant \<noteq> [] \<and> merchant \<noteq> PARTIAL_TRANSACTION_MERCHANT c
                    \<and> merchant \<noteq> DEFAULT_MERCHANT c)
            | _ \<Rightarrow> False
       else False"
      by force
  qed
qed

subsection \<open>The sort\<close>

lemmas example_defs = exampleTransaction_def exampleRow_def exampleReport_def
  exampleReportItem_def exampleQuery_def SearchTransaction.extend_def SearchReport.extend_def

lemmas js_sort_eval = js_sort_def countAndMakeRun_def binaryInsert_def binarySearch.simps
  Let_def

lemma mset_take_drop: "mset (take n a) + mset (drop n a) = mset a"
  by (metis append_take_drop_id mset_append)

lemma countAndMakeRun_mset: "countAndMakeRun cmp a = (a1, n) \<Longrightarrow> mset a1 = mset a"
  by (auto simp: countAndMakeRun_def Let_def mset_take_drop split: list.splits if_splits)

lemma mset_binaryInsert: "mset (binaryInsert cmp s pivot) = add_mset pivot (mset s)"
proof -
  have "mset (take k s @ pivot # drop k s) = add_mset pivot (mset s)" for k
    using mset_take_drop [of k s] by simp
  then show ?thesis by (simp add: binaryInsert_def Let_def)
qed

lemma mset_foldl_binaryInsert: "mset (foldl (binaryInsert cmp) s xs) = mset s + mset xs"
  by (induction xs arbitrary: s) (simp_all add: mset_binaryInsert)

lemma mset_js_sort: "mset (js_sort cmp xs) = mset xs"
proof (cases "length xs < 2")
  case True
  then show ?thesis by (simp add: js_sort_def)
next
  case False
  obtain a1 n where c: "countAndMakeRun cmp xs = (a1, n)"
    by (cases "countAndMakeRun cmp xs")
  have "mset (take n a1) + mset (drop n a1) = mset a1"
    by (rule mset_take_drop)
  with False c countAndMakeRun_mset [OF c] show ?thesis
    by (simp add: js_sort_def mset_foldl_binaryInsert)
qed



lemma array_sort_frame:
  "snd (array_sort cmp h data) = data
   \<and> mset (fst (array_sort cmp h data) data) = mset (h data)
   \<and> (\<forall>r. r \<noteq> data \<longrightarrow> fst (array_sort cmp h data) r = h r)"
  by (simp add: array_sort_def mset_js_sort)

subsection \<open>Claims on the canonical hash, the section builder and the parser boundary\<close>

text \<open>
  C1. Two queries with the same root keys whose filters are permutations of each other
  are to hash identically. The comparator of \<open>getQueryHash\<close> looks at the values only and
  answers -1 for equal values, whichever comes first. Two constraints of one key with the
  same value and different operators are therefore a descending run to the sort, which
  reverses them: each of the two queries below ends with its two constraints swapped, the
  canonical strings of the two differ, and the two hashes are equal only if \<open>hashText\<close>
  gives two different strings the same number.
\<close>

theorem getQueryHash_same_value_order:
  "mset [\<lparr>qf_operator = OpEq, qf_value = ''A''\<rparr>, \<lparr>qf_operator = OpNeq, qf_value = ''A''\<rparr>]
     = mset [\<lparr>qf_operator = OpNeq, qf_value = ''A''\<rparr>, \<lparr>qf_operator = OpEq, qf_value = ''A''\<rparr>]
   \<and> orderedQuery (exampleQuery None
        [(''category'', [\<lparr>qf_operator = OpEq, qf_value = ''A''\<rparr>,
                         \<lparr>qf_operator = OpNeq, qf_value = ''A''\<rparr>])])
       = ''type:expense status:all sortBy:date sortOrder:desc  category!=A category:A''
   \<and> orderedQuery (exampleQuery None
        [(''category'', [\<lparr>qf_operator = OpNeq, qf_value = ''A''\<rparr>,
                         \<lparr>qf_operator = OpEq, qf_value = ''A''\<rparr>])])
       = ''type:expense status:all sortBy:date sortOrder:desc  category:A category!=A''
   \<and> orderedQuery (exampleQuery None
        [(''category'', [\<lparr>qf_operator = OpEq, qf_value = ''A''\<rparr>,
                         \<lparr>qf_operator = OpNeq, qf_value = ''A''\<rparr>])])
       \<noteq> orderedQuery (exampleQuery None
        [(''category'', [\<lparr>qf_operator = OpNeq, qf_value = ''A''\<rparr>,
                         \<lparr>qf_operator = OpEq, qf_value = ''A''\<rparr>])])
   \<and> (fst (getQueryHash hashText (exampleQuery None
          [(''category'', [\<lparr>qf_operator = OpEq, qf_value = ''A''\<rparr>,
                           \<lparr>qf_operator = OpNeq, qf_value = ''A''\<rparr>])]))
        = fst (getQueryHash hashText (exampleQuery None
          [(''category'', [\<lparr>qf_operator = OpNeq, qf_value = ''A''\<rparr>,
                           \<lparr>qf_operator = OpEq, qf_value = ''A''\<rparr>])])))
       = (hashText ''type:expense status:all sortBy:date sortOrder:desc  category!=A category:A''
            (2 ^ 32)
          = hashText ''type:expense status:all sortBy:date sortOrder:desc  category:A category!=A''
              (2 ^ 32))"
proof -
  have 1: "orderedQuery (exampleQuery None
        [(''category'', [\<lparr>qf_operator = OpEq, qf_value = ''A''\<rparr>,
                         \<lparr>qf_operator = OpNeq, qf_value = ''A''\<rparr>])])
       = ''type:expense status:all sortBy:date sortOrder:desc  category!=A category:A''"
    by (simp add: orderedQuery_def example_defs js_sort_eval compareFilterValues_def
        buildFilterString_def sanitizeString_def isPlainChar_def)
  have 2: "orderedQuery (exampleQuery None
        [(''category'', [\<lparr>qf_operator = OpNeq, qf_value = ''A''\<rparr>,
                         \<lparr>qf_operator = OpEq, qf_value = ''A''\<rparr>])])
       = ''type:expense status:all sortBy:date sortOrder:desc  category:A category!=A''"
    by (simp add: orderedQuery_def example_defs js_sort_eval compareFilterValues_def
        buildFilterString_def sanitizeString_def isPlainChar_def)
  show ?thesis
    unfolding getQueryHash_def fst_conv 1 2 by simp
qed

text \<open>
  C3. A report whose two transactions come before it in the payload is to list both.
  \<open>getReportSections\<close> pushes a transaction only on a group that exists, and only a report
  record creates a group: the two transactions are lost, while the same payload with the
  report first keeps them, in the order met.
\<close>

theorem getReportSections_transactions_first:
  "map rl_transactions (getReportSections c
     (examplePayload [] [] @ [(COLLECTION_REPORT @ ''R1'', ReportEntry (exampleReport ''R1''))])
     metadata)
     = [Some []]
   \<and> map (map_option (map t_transactionID) \<circ> rl_transactions) (getReportSections c
     ((COLLECTION_REPORT @ ''R1'', ReportEntry (exampleReport ''R1'')) # examplePayload [] [])
     metadata)
     = [Some [''1'', ''2'']]"
  by (simp add: getReportSections_def reportSectionsStep_def isReportEntry_def
      isTransactionEntry_def startsWith_def COLLECTION_REPORT_def COLLECTION_TRANSACTION_def
      examplePayload_def example_defs Let_def transactionListItem_def)

text \<open>
  C4. Reports are to come in descending order of the effective date (modified date when
  there is one, else creation date) of their newest transaction. Report A holds one
  transaction created 2024-01-01 and modified to 2024-06-01, report B one created
  2024-03-01: A is the newer one, and \<open>getSortedReportData\<close> puts B first, because
  \<open>getReportNewestTransactionDate\<close> returns the \<open>created\<close> field of the transaction it
  picks.
\<close>

theorem getSortedReportData_modified_date:
  "getReportNewestTransactionDate (exampleReportItem ''A''
      [exampleRow (exampleTransaction ''1'' ''A'' (Some ''2024-01-01'') (Some ''2024-06-01'') None) 0])
     = Some ''2024-01-01''
   \<and> map r_reportID (fst (getSortedReportData codeUnitCompare
      (\<lambda>r. [exampleReportItem ''A''
               [exampleRow (exampleTransaction ''1'' ''A'' (Some ''2024-01-01'')
                              (Some ''2024-06-01'') None) 0],
            exampleReportItem ''B''
               [exampleRow (exampleTransaction ''2'' ''B'' (Some ''2024-03-01'') None None) 0]])
      0) 0)
     = [''B'', ''A'']"
  by (simp add: getSortedReportData_def array_sort_def js_sort_eval compareReports_def
      example_defs getReportNewestTransactionDate_def newerThan_def codeUnitCompare_def
      toLowerCase_def)

text \<open>
  C5. \<open>buildSearchQueryJSON\<close> never throws: whatever the parser does, the call returns.
  When the parser throws, the result is absent and one line has been written to the
  console; when it returns, the result is the query, with the input string and the
  flattened filters, and the console is as it was.
\<close>

theorem buildSearchQueryJSON_never_throws:
  "(\<exists>result. fst (buildSearchQueryJSON parse hashText console query) = Inr result)
   \<and> (case parse query of
         Inl e \<Rightarrow>
           fst (buildSearchQueryJSON parse hashText console query) = Inr None
           \<and> (\<exists>line. snd (buildSearchQueryJSON parse hashText console query) = console @ [line])
       | Inr parsed \<Rightarrow>
           (\<exists>json. fst (buildSearchQueryJSON parse hashText console query) = Inr (Some json)
              \<and> q_inputQuery json = query
              \<and> q_flatFilters json = sortFlatFilters (getFilters (q_filters parsed)))
           \<and> snd (buildSearchQueryJSON parse hashText console query) = console)"
  by (simp add: buildSearchQueryJSON_def buildSearchQueryJSON_try_def getQueryHash_def Let_def
      split: sum.splits)

subsection \<open>Claims on sorting\<close>


lemmas sort_eval = getSortedTransactionData_def array_sort_def js_sort_eval
  compareTransactions_def exampleArrays_def exampleRows_def example_defs

text \<open>
  C7, as the claim states it: the sorting operations leave the caller's array as it was.
  Sorting the rows with the totals 500, -200, 0 by total amount leaves another array
  behind the caller's reference.
\<close>

theorem sorting_mutates_input:
  "fst (getSortedTransactionData codeUnitCompare exampleArrays 0 (Some ColumnTotalAmount)
          (Some ASC)) 0
   \<noteq> exampleArrays 0"
  by (simp add: sort_eval)

text \<open>
  C7, amended. Each sorting operation works on the array it was given and returns that
  same reference: afterwards the array holds the same rows, possibly in another order,
  and every other array of the store is as it was. \<open>getSortedTransactionData\<close> leaves the
  store as it is when \<open>sortBy\<close> or \<open>sortOrder\<close> is missing or the column has no sorting
  property.
\<close>

theorem sorting_in_place:
  "snd (getSortedTransactionData lc h1 data sortBy sortOrder) = data
   \<and> mset (fst (getSortedTransactionData lc h1 data sortBy sortOrder) data) = mset (h1 data)
   \<and> (\<forall>r. r \<noteq> data \<longrightarrow> fst (getSortedTransactionData lc h1 data sortBy sortOrder) r = h1 r)
   \<and> (sortBy = None \<or> sortOrder = None
        \<or> (\<exists>column. sortBy = Some column \<and> columnNamesToSortingProperty column = None)
       \<longrightarrow> getSortedTransactionData lc h1 data sortBy sortOrder = (h1, data))
   \<and> snd (getSortedReportData lc h2 data) = data
   \<and> mset (fst (getSortedReportData lc h2 data) data) = mset (h2 data)
   \<and> (\<forall>r. r \<noteq> data \<longrightarrow> fst (getSortedReportData lc h2 data) r = h2 r)
   \<and> snd (getSortedReportActionData lc h3 data) = data
   \<and> mset (fst (getSortedReportActionData lc h3 data) data) = mset (h3 data)
   \<and> (\<forall>r. r \<noteq> data \<longrightarrow> fst (getSortedReportActionData lc h3 data) r = h3 r)"
proof -
  have t: "snd (getSortedTransactionData lc h1 data sortBy sortOrder) = data
   \<and> mset (fst (getSortedTransactionData lc h1 data sortBy sortOrder) data) = mset (h1 data)
   \<and> (\<forall>r. r \<noteq> data \<longrightarrow> fst (getSortedTransactionData lc h1 data sortBy sortOrder) r = h1 r)"
    using array_sort_frame [where h = h1 and data = data]
    by (simp add: getSortedTransactionData_def split: option.splits)
  have u: "sortBy = None \<or> sortOrder = None
        \<or> (\<exists>column. sortBy = Some column \<and> columnNamesToSortingProperty column = None)
       \<longrightarrow> getSortedTransactionData lc h1 data sortBy sortOrder = (h1, data)"
    by (auto simp: getSortedTransactionData_def split: option.splits)
  show ?thesis
    using t u array_sort_frame [of "compareReports lc" h2 data]
      array_sort_frame [of "compareReportActions lc" h3 data]
    by (simp add: getSortedReportData_def getSortedReportActionData_def)
qed

theorem sorting_in_place_witness:
  "(1::nat) \<noteq> 0
   \<and> snd (getSortedTransactionData codeUnitCompare exampleArrays 0 (Some ColumnTotalAmount)
            (Some ASC)) = 0
   \<and> fst (getSortedTransactionData codeUnitCompare exampleArrays 0 (Some ColumnTotalAmount)
            (Some ASC)) 1 = exampleArrays 1
   \<and> mset (fst (getSortedTransactionData codeUnitCompare exampleArrays 0
                  (Some ColumnTotalAmount) (Some ASC)) 0) = mset (exampleArrays 0)
   \<and> map li_formattedTotal
        (fst (getSortedTransactionData codeUnitCompare exampleArrays 0 (Some ColumnTotalAmount)
                (Some ASC)) 0) = [- 200, 0, 500]
   \<and> columnNamesToSortingProperty ColumnReceipt = None
   \<and> getSortedTransactionData codeUnitCompare exampleArrays 0 (Some ColumnReceipt) (Some ASC)
       = (exampleArrays, 0)"
proof -
  have s: "map li_formattedTotal
        (fst (getSortedTransactionData codeUnitCompare exampleArrays 0 (Some ColumnTotalAmount)
                (Some ASC)) 0) = [- 200, 0, 500]"
    by (simp add: sort_eval)
  show ?thesis
    using s
      sorting_in_place [of codeUnitCompare exampleArrays 0 "Some ColumnTotalAmount" "Some ASC"]
      sorting_in_place [of codeUnitCompare exampleArrays 0 "Some ColumnReceipt" "Some ASC"]
    by simp
qed




subsection \<open>Standardizing a query\<close>

text \<open>
  C10. \<open>standardizeQueryJSON\<close> returns a new object and leaves its argument as it was: the
  result is a reference that the store did not hold before, every object of the store,
  the argument among them, is unchanged, and the new object is the argument with the
  display values of its tree replaced by ids and the filters flattened again.
\<close>

theorem standardizeQueryJSON_clones:
  assumes "queryJSON < length h"
  shows "snd (standardizeQueryJSON a h queryJSON cardList taxRates) = length h
     \<and> length (fst (standardizeQueryJSON a h queryJSON cardList taxRates)) = Suc (length h)
     \<and> (\<forall>r < length h. fst (standardizeQueryJSON a h queryJSON cardList taxRates) ! r = h ! r)
     \<and> fst (standardizeQueryJSON a h queryJSON cardList taxRates) ! queryJSON = h ! queryJSON
     \<and> fst (standardizeQueryJSON a h queryJSON cardList taxRates) ! length h
         = (h ! queryJSON)
             \<lparr>q_filters := map_option (standardizeNode a cardList taxRates)
                              (q_filters (h ! queryJSON)),
              q_flatFilters := getFilters (map_option (standardizeNode a cardList taxRates)
                                             (q_filters (h ! queryJSON)))\<rparr>"
  using assms
  by (cases "q_filters (h ! queryJSON)")
     (simp_all add: standardizeQueryJSON_def cloneDeep_def Let_def nth_append)

theorem standardizeQueryJSON_clones_witness:
  "(0::nat) < length [exampleStoredQuery]
   \<and> snd (standardizeQueryJSON exampleAccounts [exampleStoredQuery] 0 []
            [(''VAT'', [''id_1'', ''id_2''])]) = 1
   \<and> fst (standardizeQueryJSON exampleAccounts [exampleStoredQuery] 0 []
            [(''VAT'', [''id_1'', ''id_2''])]) ! 0 = exampleStoredQuery
   \<and> q_flatFilters (fst (standardizeQueryJSON exampleAccounts [exampleStoredQuery] 0 []
                           [(''VAT'', [''id_1'', ''id_2''])]) ! 1)
       = [(''from'', [\<lparr>qf_operator = OpEq, qf_value = ''42''\<rparr>]),
          (''taxRate'', [\<lparr>qf_operator = OpEq, qf_value = ''id_1''\<rparr>,
                         \<lparr>qf_operator = OpEq, qf_value = ''id_2''\<rparr>])]"
proof -
  have h: "(0::nat) < length [exampleStoredQuery]" by simp
  show ?thesis
    using h standardizeQueryJSON_clones [OF h, of exampleAccounts "[]"
        "[(''VAT'', [''id_1'', ''id_2''])]"]
    by (simp add: exampleStoredQuery_def exampleQuery_def exampleAccounts_def getFilters_def
        findIDFromDisplayValue_def SYNTAX_FILTER_KEYS_def pushFilters_def rhsFilters_def)
qed

subsection \<open>The merchant column\<close>

lemma set_objSet: "set (objSet k v m) \<subseteq> insert (k, v) (set m)"
  by (induction m) (auto split: if_splits)

lemma objGet_mem: "objGet m k = Some v \<Longrightarrow> (k, v) \<in> set m"
  by (induction m) (auto split: if_splits)

lemma groupsCarry_objSet:
  assumes a: "groupsCarry flag groups"
    and b: "case rl_transactions g of None \<Rightarrow> True
            | Some ts \<Rightarrow> list_all (\<lambda>t. li_shouldShowMerchant t = flag) ts"
  shows "groupsCarry flag (objSet k g groups)"
proof -
  have "case rl_transactions g' of None \<Rightarrow> True
        | Some ts \<Rightarrow> list_all (\<lambda>t. li_shouldShowMerchant t = flag) ts"
    if "(k', g') \<in> set (objSet k g groups)" for k' g'
  proof -
    from that set_objSet [of k g groups] have "(k', g') = (k, g) \<or> (k', g') \<in> set groups"
      by blast
    then show ?thesis
    proof
      assume "(k', g') = (k, g)"
      with b show ?thesis by simp
    next
      assume "(k', g') \<in> set groups"
      with a show ?thesis
        unfolding groupsCarry_def list_all_iff by blast
    qed
  qed
  then show ?thesis
    unfolding groupsCarry_def list_all_iff by blast
qed

lemma groupsCarry_objGet:
  "groupsCarry flag groups \<Longrightarrow> objGet groups k = Some g \<Longrightarrow> rl_transactions g = Some ts \<Longrightarrow>
   list_all (\<lambda>t. li_shouldShowMerchant t = flag) ts"
  using objGet_mem [of groups k g]
  unfolding groupsCarry_def list_all_iff by (auto split: option.splits)

lemma transactionListItem_flag:
  "li_shouldShowMerchant (transactionListItem c data metadata flag y transactionItem) = flag"
  by (simp add: transactionListItem_def Let_def SearchTransaction.extend_def)

lemma groupsCarry_step:
  assumes "groupsCarry flag groups"
  shows "groupsCarry flag (reportSectionsStep c data metadata flag y groups ke)"
proof (cases ke)
  case (Pair key entry)
  show ?thesis
  proof (cases entry)
    case (ReportEntry reportItem)
    show ?thesis
    proof (cases "isReportEntry key")
      case True
      let ?k = "COLLECTION_REPORT @ r_reportID reportItem"
      have "list_all (\<lambda>t. li_shouldShowMerchant t = flag)
              (case objGet groups ?k of None \<Rightarrow> []
               | Some g \<Rightarrow> (case rl_transactions g of None \<Rightarrow> [] | Some ts \<Rightarrow> ts))"
        using groupsCarry_objGet [OF assms, of ?k] by (auto split: option.splits)
      then show ?thesis
        using True Pair ReportEntry assms
        by (auto simp: reportSectionsStep_def Let_def SearchReport.extend_def
            intro!: groupsCarry_objSet)
    next
      case False
      then show ?thesis using Pair ReportEntry assms by (simp add: reportSectionsStep_def)
    qed
  next
    case (TransactionEntry transactionItem)
    show ?thesis
    proof (cases "\<not> isReportEntry key \<and> isTransactionEntry key")
      case True
      let ?k = "COLLECTION_REPORT @ t_reportID transactionItem"
      show ?thesis
      proof (cases "objGet groups ?k")
        case None
        then show ?thesis using True Pair TransactionEntry assms
          by (simp add: reportSectionsStep_def Let_def)
      next
        case (Some g)
        note g = this
        show ?thesis
        proof (cases "rl_transactions g")
          case None
          then show ?thesis using g True Pair TransactionEntry assms
            by (auto simp: reportSectionsStep_def Let_def transactionListItem_flag
                intro!: groupsCarry_objSet)
        next
          case (Some ts)
          have "list_all (\<lambda>t. li_shouldShowMerchant t = flag) ts"
            using groupsCarry_objGet [OF assms g Some] .
          then show ?thesis using Some g True Pair TransactionEntry assms
            by (auto simp: reportSectionsStep_def Let_def transactionListItem_flag
                intro!: groupsCarry_objSet)
        qed
      qed
    next
      case False
      then show ?thesis using Pair TransactionEntry assms
        by (auto simp add: reportSectionsStep_def)
    qed
  next
    case (ReportActionsEntry x)
    then show ?thesis using Pair assms by (simp add: reportSectionsStep_def)
  next
    case (PersonalDetailsList x)
    then show ?thesis using Pair assms by (simp add: reportSectionsStep_def)
  qed
qed

lemma groupsCarry_foldl:
  "groupsCarry flag groups \<Longrightarrow>
   groupsCarry flag (foldl (reportSectionsStep c data metadata flag y) groups es)"
  by (induction es arbitrary: groups) (simp_all add: groupsCarry_step)

lemma getReportSections_flag:
  assumes "g \<in> set (getReportSections c data metadata)" "rl_transactions g = Some ts"
    "t \<in> set ts"
  shows "li_shouldShowMerchant t = getShouldShowMerchant (TRANSACTION c) data"
proof -
  let ?flag = "getShouldShowMerchant (TRANSACTION c) data"
  have "groupsCarry ?flag
          (foldl (reportSectionsStep c data metadata ?flag (shouldShowYear c data)) [] data)"
    by (rule groupsCarry_foldl) (simp add: groupsCarry_def)
  with assms show ?thesis
    unfolding groupsCarry_def list_all_iff getReportSections_def Let_def
    by (auto split: option.splits)
qed

lemma getTransactionsSections_flag:
  assumes "item \<in> set (getTransactionsSections c data metadata)"
  shows "li_shouldShowMerchant item = getShouldShowMerchant (TRANSACTION c) data"
proof -
  let ?f = "\<lambda>(key, entry). if isTransactionEntry key then
             (case entry of
                TransactionEntry transactionItem \<Rightarrow>
                  [transactionListItem c data metadata (getShouldShowMerchant (TRANSACTION c) data)
                     (shouldShowYear c data) transactionItem]
              | _ \<Rightarrow> [])
           else []"
  from assms obtain ke where "item \<in> set (?f ke)"
    unfolding getTransactionsSections_def Let_def set_concat set_map by blast
  moreover obtain key entry where ke: "ke = (key, entry)"
    by (cases ke)
  ultimately have m: "item \<in> set (if isTransactionEntry key then
             (case entry of
                TransactionEntry transactionItem \<Rightarrow>
                  [transactionListItem c data metadata (getShouldShowMerchant (TRANSACTION c) data)
                     (shouldShowYear c data) transactionItem]
              | _ \<Rightarrow> [])
           else [])"
    by (simp only: prod.case)
  show ?thesis
  proof (cases entry)
    case (TransactionEntry transactionItem)
    with m show ?thesis
      by (cases "isTransactionEntry key") (simp_all add: transactionListItem_flag)
  next
    case (ReportEntry x)
    with m show ?thesis by (cases "isTransactionEntry key") simp_all
  next
    case (ReportActionsEntry x)
    with m show ?thesis by (cases "isTransactionEntry key") simp_all
  next
    case (PersonalDetailsList x)
    with m show ?thesis by (cases "isTransactionEntry key") simp_all
  qed
qed

text \<open>
  C8. \<open>getShouldShowMerchant\<close> holds exactly when some entry under a transaction key has a
  merchant, the modified merchant taking precedence when it is set, that is neither empty
  nor one of the two placeholder merchants. The flag is one per payload: every row of
  \<open>getTransactionsSections\<close> and every transaction of every group of \<open>getReportSections\<close>
  carries the value computed for the whole payload.
\<close>

theorem getShouldShowMerchant_iff:
  "(getShouldShowMerchant (TRANSACTION c) data \<longleftrightarrow>
     (\<exists>key item. (key, TransactionEntry item) \<in> set data \<and> isTransactionEntry key
        \<and> (let merchant = (case t_modifiedMerchant item of
                              Some m \<Rightarrow> (if m \<noteq> [] then m
                                         else (case t_merchant item of None \<Rightarrow> [] | Some m' \<Rightarrow> m'))
                            | None \<Rightarrow> (case t_merchant item of None \<Rightarrow> [] | Some m' \<Rightarrow> m'))
            in merchant \<noteq> [] \<and> merchant \<noteq> PARTIAL_TRANSACTION_MERCHANT (TRANSACTION c)
               \<and> merchant \<noteq> DEFAULT_MERCHANT (TRANSACTION c))))
   \<and> (\<forall>item \<in> set (getTransactionsSections c data metadata).
         li_shouldShowMerchant item = getShouldShowMerchant (TRANSACTION c) data)
   \<and> (\<forall>g \<in> set (getReportSections c data metadata).
         \<forall>ts. rl_transactions g = Some ts \<longrightarrow>
           (\<forall>t \<in> set ts. li_shouldShowMerchant t = getShouldShowMerchant (TRANSACTION c) data))"
  using getShouldShowMerchant_char [of "TRANSACTION c" data]
    getTransactionsSections_flag [of _ c data metadata]
    getReportSections_flag [of _ c data metadata]
  by blast

theorem getShouldShowMerchant_iff_witness:
  "getShouldShowMerchant (TRANSACTION exampleCollaborators) (examplePayload [] ''Coffee Shop'')
   \<and> map li_shouldShowMerchant
        (getTransactionsSections exampleCollaborators (examplePayload [] ''Coffee Shop'')
           exampleMetadata) = [True, True]
   \<and> \<not> getShouldShowMerchant (TRANSACTION exampleCollaborators) (examplePayload ''(none)'' ''Expense'')
   \<and> \<not> getShouldShowMerchant (TRANSACTION exampleCollaborators) (examplePayload [] [])"
proof -
  have e: "map li_shouldShowMerchant
        (getTransactionsSections exampleCollaborators (examplePayload [] ''Coffee Shop'')
           exampleMetadata) =
      [getShouldShowMerchant (TRANSACTION exampleCollaborators) (examplePayload [] ''Coffee Shop''),
       getShouldShowMerchant (TRANSACTION exampleCollaborators) (examplePayload [] ''Coffee Shop'')]"
    by (simp add: getTransactionsSections_def examplePayload_def isTransactionEntry_def
        startsWith_def COLLECTION_TRANSACTION_def Let_def transactionListItem_flag)
  have m: "entryMerchant (exampleTransaction i r cr mcr (Some merchant)) = merchant"
    for i r cr mcr merchant
    by (simp add: entryMerchant_def exampleTransaction_def)
  show ?thesis
    using e getShouldShowMerchant_iff [of exampleCollaborators "examplePayload [] ''Coffee Shop''"
        exampleMetadata]
    by (simp add: getShouldShowMerchant_def examplePayload_def isTransactionEntry_def
        startsWith_def COLLECTION_TRANSACTION_def exampleCollaborators_def m)
qed

end
